theory Spec2Isabelle
  imports Main
begin

section \<open>Python strings and dictionaries\<close>

text \<open>
  A Python \<^verbatim>\<open>str\<close> is a sequence of Unicode code points, so it is modelled as a list of
  natural numbers, one per code point. The data of the scripts is not ASCII only (the
  marker written to \<^verbatim>\<open>data_quality\<close> holds U+0153 and U+2026), which rules out the
  8-bit \<^typ>\<open>char\<close>. ASCII literals of the source are written with \<open>lit\<close>.
\<close>

type_synonym pystr = "nat list"

definition lit :: "string \<Rightarrow> pystr" where
  "lit cs = map of_char cs"

text \<open>
  \<^verbatim>\<open>str.strip()\<close> without argument removes the code points for which CPython's
  \<^verbatim>\<open>Py_UNICODE_ISSPACE\<close> holds, from both ends: U+0009..U+000D, U+001C..U+0020, U+0085,
  U+00A0, U+1680, U+2000..U+200A, U+2028, U+2029, U+202F, U+205F and U+3000.
\<close>

definition isspace :: "nat \<Rightarrow> bool" where
  "isspace c \<longleftrightarrow>
     (9 \<le> c \<and> c \<le> 13) \<or> (28 \<le> c \<and> c \<le> 32) \<or> c = 133 \<or> c = 160 \<or> c = 5760 \<or>
     (8192 \<le> c \<and> c \<le> 8202) \<or> c = 8232 \<or> c = 8233 \<or> c = 8239 \<or> c = 8287 \<or> c = 12288"

definition strip :: "pystr \<Rightarrow> pystr" where
  "strip s = rev (dropWhile isspace (rev (dropWhile isspace s)))"

definition startswith :: "pystr \<Rightarrow> pystr \<Rightarrow> bool" where
  "startswith s p \<longleftrightarrow> take (length p) s = p"

text \<open>
  A row of \<^verbatim>\<open>csv.DictReader\<close> is a dict from column names to cells. For a line with as
  many cells as the header has columns every cell is a string, and such a row is a
  \<open>company\<close>; the functions of the scripts are translated at this type first. For a
  shorter line the reader stores \<^verbatim>\<open>None\<close> in the missing cells; the section on rows
  with missing cells translates the same functions for those rows, where a method call
  on \<^verbatim>\<open>None\<close> raises. \<open>dict_get d k dflt\<close> is \<^verbatim>\<open>d.get(k, dflt)\<close>: the default is taken
  only when the key is absent.
\<close>

type_synonym company = "pystr \<rightharpoonup> pystr"

definition dict_get :: "company \<Rightarrow> pystr \<Rightarrow> pystr \<Rightarrow> pystr" where
  "dict_get d k dflt = (case d k of None \<Rightarrow> dflt | Some v \<Rightarrow> v)"

text \<open>
  The exceptions that the modelled code raises. \<^verbatim>\<open>AttributeError\<close> comes from
  \<^verbatim>\<open>.strip()\<close> on \<^verbatim>\<open>None\<close>, before \<^verbatim>\<open>main\<close> has opened the file for writing, so the
  file is as it was. \<^verbatim>\<open>ValueError\<close> comes from the writer, after \<^verbatim>\<open>main\<close> has opened the
  file with mode \<^verbatim>\<open>'w'\<close> and written the header; it carries the rows written before the
  one that raised, which with the header are all that the file then holds.
\<close>

datatype error = AttributeError | ValueError "pystr list list"

section \<open>The placeholder classifier\<close>

text \<open>
  \<^verbatim>\<open>is_pattern_data\<close> of \<^verbatim>\<open>batch_extract_founders.py\<close>, on a row whose cells are all
  strings, where no call raises (\<open>is_pattern_data_csv\<close> below is the function on every
  row of the reader). The three \<^verbatim>\<open>if\<close> statements return in the order of the source;
  \<^verbatim>\<open>not s\<close> on a string is \<open>s = []\<close>.
\<close>

definition is_pattern_data :: "company \<Rightarrow> bool" where
  "is_pattern_data company =
     (let founder_first = strip (dict_get company (lit ''founder_first_name'') []);
          founder_email = strip (dict_get company (lit ''founder_email'') [])
      in if founder_first = lit ''Team'' \<or> founder_first = [] then True
         else if startswith founder_email (lit ''hello@'') then True
         else if strip (dict_get company (lit ''founder_linkedin'') []) = [] then True
         else False)"

text \<open>
  \<^verbatim>\<open>is_pattern_data\<close> of \<^verbatim>\<open>get_founders_from_yc.py\<close>, a second copy of the function
  (\<^verbatim>\<open>extract_real_founders.py\<close> holds a third with the same text).
\<close>

definition is_pattern_data_yc :: "company \<Rightarrow> bool" where
  "is_pattern_data_yc company =
     (let founder_first = strip (dict_get company (lit ''founder_first_name'') []);
          founder_email = strip (dict_get company (lit ''founder_email'') [])
      in if founder_first = lit ''Team'' \<or> founder_first = [] then True
         else if startswith founder_email (lit ''hello@'') then True
         else if strip (dict_get company (lit ''founder_linkedin'') []) = [] then True
         else False)"

text \<open>
  \<^verbatim>\<open>get_companies_needing_founders\<close> of \<^verbatim>\<open>find_founders_batch.py\<close>: the loop over the
  rows of the reader, appending to \<^verbatim>\<open>companies\<close> in the branches of the
  \<^verbatim>\<open>if\<close>/\<^verbatim>\<open>elif\<close> chain. The rows read from the file are the argument.
\<close>

fun needing_loop :: "company list \<Rightarrow> company list \<Rightarrow> company list" where
  "needing_loop [] companies = companies"
| "needing_loop (c # reader) companies =
     (let founder_first = strip (dict_get c (lit ''founder_first_name'') []);
          founder_email = strip (dict_get c (lit ''founder_email'') [])
      in if founder_first = lit ''Team'' \<or> founder_first = [] then
           needing_loop reader (companies @ [c])
         else if startswith founder_email (lit ''hello@'') then
           needing_loop reader (companies @ [c])
         else if strip (dict_get c (lit ''founder_linkedin'') []) = [] then
           needing_loop reader (companies @ [c])
         else needing_loop reader companies)"

definition get_companies_needing_founders :: "company list \<Rightarrow> company list" where
  "get_companies_needing_founders reader = needing_loop reader []"

section \<open>The slug extractor\<close>

text \<open>
  \<^verbatim>\<open>extract_company_slug\<close>, with the same text in \<^verbatim>\<open>extract_real_founders.py\<close> and
  \<^verbatim>\<open>get_founders_from_yc.py\<close>. The argument may be \<^verbatim>\<open>None\<close>.
  \<^verbatim>\<open>re.search(r'/companies/([^/]+)', yc_link)\<close> tries the start positions from left to
  right. At one position the pattern matches when the text there starts with
  \<^verbatim>\<open>/companies/\<close> and at least one code point other than \<^verbatim>\<open>/\<close> (code point 47)
  follows; the greedy group takes the longest run of such code points, and nothing of
  the pattern comes after the group, so no shorter run is ever tried.
\<close>

definition match_at :: "pystr \<Rightarrow> pystr option" where
  "match_at s =
     (if startswith s (lit ''/companies/'') then
        (let group1 = takeWhile (\<lambda>c. c \<noteq> 47) (drop 11 s)
         in if group1 = [] then None else Some group1)
      else None)"

fun re_search :: "pystr \<Rightarrow> pystr option" where
  "re_search [] = None"
| "re_search (c # cs) =
     (case match_at (c # cs) of Some group1 \<Rightarrow> Some group1 | None \<Rightarrow> re_search cs)"

definition extract_company_slug :: "pystr option \<Rightarrow> pystr option" where
  "extract_company_slug yc_link =
     (case yc_link of
        None \<Rightarrow> None
      | Some s \<Rightarrow> if s = [] then None else re_search s)"

section \<open>The override table and the merger\<close>

text \<open>
  Every value of \<^verbatim>\<open>REAL_FOUNDER_DATA\<close> is a dict display with the same five keys, and
  \<^verbatim>\<open>main\<close> hands only these values to \<^verbatim>\<open>update_company_with_real_data\<close>, so an override
  is a record with five fields and the subscripts \<^verbatim>\<open>real_data['founder_first']\<close> are
  field selections. The 75 company names of the table are pairwise distinct, so looking
  a name up in the dict is \<open>map_of\<close> on the list of its items.
\<close>

record real_data =
  founder_first :: pystr
  founder_last :: pystr
  founder_email :: pystr
  founder_linkedin :: pystr
  website :: pystr

definition REAL_FOUNDER_DATA :: "(pystr \<times> real_data) list" where
  "REAL_FOUNDER_DATA = [
    (lit ''Uplift AI'',
     \<lparr>founder_first = lit ''Hammad'',
       founder_last = lit ''Malik'',
       founder_email = lit ''hammad@upliftai.org'',
       founder_linkedin = lit ''linkedin.com/in/hammad2'',
       website = lit ''upliftai.org''\<rparr>),
    (lit ''Freya'',
     \<lparr>founder_first = lit ''Tunga'',
       founder_last = lit ''Bayrak'',
       founder_email = lit ''tunga@freyavoice.ai'',
       founder_linkedin = lit ''linkedin.com/in/tunga-bayrak'',
       website = lit ''freyavoice.ai''\<rparr>),
    (lit ''burnt'',
     \<lparr>founder_first = lit ''Joseph'',
       founder_last = lit ''Jacob'',
       founder_email = lit ''joseph@getburnt.ai'',
       founder_linkedin = lit ''linkedin.com/in/josephjacob93'',
       website = lit ''getburnt.ai''\<rparr>),
    (lit ''Blue'',
     \<lparr>founder_first = lit ''Omar'',
       founder_last = lit ''Abdelaziz'',
       founder_email = lit ''omar@heyblue.com'',
       founder_linkedin = lit ''linkedin.com/in/oabdelaziz'',
       website = lit ''heyblue.com''\<rparr>),
    (lit ''Avent'',
     \<lparr>founder_first = lit ''Abhay'',
       founder_last = lit ''Kalra'',
       founder_email = lit ''abhay@aventindustrial.com'',
       founder_linkedin = lit ''linkedin.com/in/abhay-kalra-683688214'',
       website = lit ''aventindustrial.com''\<rparr>),
    (lit ''Cacao'',
     \<lparr>founder_first = lit ''Alec'',
       founder_last = lit ''Howard'',
       founder_email = lit ''alec@cacaofi.com'',
       founder_linkedin = lit ''linkedin.com/in/alexandermhoward'',
       website = lit ''cacaofi.com''\<rparr>),
    (lit ''Veritus Agent'',
     \<lparr>founder_first = lit ''Joshua'',
       founder_last = lit ''March'',
       founder_email = lit ''joshua@veritusagent.ai'',
       founder_linkedin = lit ''linkedin.com/in/joshuamarch'',
       website = lit ''veritusagent.ai''\<rparr>),
    (lit ''NOSO LABS'',
     \<lparr>founder_first = lit ''Winston'',
       founder_last = lit ''Chi'',
       founder_email = lit ''winston@noso.so'',
       founder_linkedin = lit ''linkedin.com/in/lwchi'',
       website = lit ''noso.so''\<rparr>),
    (lit ''Vulcan Technologies'',
     \<lparr>founder_first = lit ''Tanner'',
       founder_last = lit ''Jones'',
       founder_email = lit ''tanner@vulcan-tech.com'',
       founder_linkedin = lit ''linkedin.com/in/tanner-jones-817192167'',
       website = lit ''vulcan-tech.com''\<rparr>),
    (lit ''Spotlight Realty'',
     \<lparr>founder_first = lit ''Raymond'',
       founder_last = lit ''Allie'',
       founder_email = lit ''raymond@spotlight.realty'',
       founder_linkedin = lit ''linkedin.com/in/raymond-allie'',
       website = lit ''spotlight.realty''\<rparr>),
    (lit ''Munify'',
     \<lparr>founder_first = lit ''Khalid'',
       founder_last = lit ''Ashmawy'',
       founder_email = lit ''khalid@munify.ai'',
       founder_linkedin = lit ''linkedin.com/in/khalidashmawy'',
       website = lit ''munify.ai''\<rparr>),
    (lit ''TectoAI'',
     \<lparr>founder_first = lit ''Niosha'',
       founder_last = lit ''Afsharikia'',
       founder_email = lit ''founders@tecto.ai'',
       founder_linkedin = lit ''linkedin.com/in/afsharikia'',
       website = lit ''tecto.ai''\<rparr>),
    (lit ''Duranium'',
     \<lparr>founder_first = lit ''Brenden'',
       founder_last = lit ''Prins-McKinney'',
       founder_email = lit ''brenden@duranium.co'',
       founder_linkedin = lit ''linkedin.com/in/brenden-prins-mckinney-96959a69'',
       website = lit ''duranium.co''\<rparr>),
    (lit ''Perspectives Health'',
     \<lparr>founder_first = lit ''Eshan'',
       founder_last = lit ''Dosani'',
       founder_email = lit ''eshan@perspectiveshealth.ai'',
       founder_linkedin = lit ''linkedin.com/in/eshan-dosani'',
       website = lit ''perspectiveshealth.ai''\<rparr>),
    (lit ''Magnetic'',
     \<lparr>founder_first = lit ''Thomas'',
       founder_last = lit ''Shelley'',
       founder_email = lit ''thomas@magnetictax.com'',
       founder_linkedin = lit ''linkedin.com/in/thomasjshelley'',
       website = lit ''magnetictax.com''\<rparr>),
    (lit ''Fleetline'',
     \<lparr>founder_first = lit ''Saurav'',
       founder_last = lit ''Kumar'',
       founder_email = lit ''saurav@fleetline.ai'',
       founder_linkedin = lit ''linkedin.com/in/sauravml'',
       website = lit ''fleetline.ai''\<rparr>),
    (lit ''Clodo'',
     \<lparr>founder_first = lit ''Sid'',
       founder_last = lit ''Rajaram'',
       founder_email = lit ''sid@clodo.ai'',
       founder_linkedin = lit ''linkedin.com/in/sidharthrajaram'',
       website = lit ''clodo.ai''\<rparr>),
    (lit ''Flywheel AI'',
     \<lparr>founder_first = lit ''Jash'',
       founder_last = lit ''Mota'',
       founder_email = lit ''jash@useflywheel.ai'',
       founder_linkedin = lit ''linkedin.com/in/jashmota'',
       website = lit ''useflywheel.ai''\<rparr>),
    (lit ''Juxta'',
     \<lparr>founder_first = lit ''John'',
       founder_last = lit ''Ferrara'',
       founder_email = lit ''john@usejuxta.org'',
       founder_linkedin = lit ''linkedin.com/in/ferrara-john'',
       website = lit ''juxta.com''\<rparr>),
    (lit ''dScribe AI'',
     \<lparr>founder_first = lit ''Warren'',
       founder_last = lit ''Wijaya Wang'',
       founder_email = lit ''warren@dscribeai.com'',
       founder_linkedin = lit ''linkedin.com/in/warrenwang-fnu'',
       website = lit ''dscribeai.com''\<rparr>),
    (lit ''Reacher'',
     \<lparr>founder_first = lit ''Jerry'',
       founder_last = lit ''Qian'',
       founder_email = lit ''jerry@reacherapp.com'',
       founder_linkedin = lit ''linkedin.com/in/j-qian'',
       website = lit ''reacherapp.com''\<rparr>),
    (lit ''Hera'',
     \<lparr>founder_first = lit ''Peter'',
       founder_last = lit ''Tribelhorn'',
       founder_email = lit ''peter@hera.video'',
       founder_linkedin = lit ''linkedin.com/in/peter-tribelhorn-36a967142'',
       website = lit ''hera.video''\<rparr>),
    (lit ''Nottelabs'',
     \<lparr>founder_first = lit ''Andrea'',
       founder_last = lit ''Pinto'',
       founder_email = lit ''andrea@notte.cc'',
       founder_linkedin = lit ''linkedin.com/in/pinto-andrea'',
       website = lit ''notte.cc''\<rparr>),
    (lit ''Locata'',
     \<lparr>founder_first = lit ''Alejandro'',
       founder_last = lit ''Salinas'',
       founder_email = lit ''alejandro@locatahealth.com'',
       founder_linkedin = lit ''linkedin.com/in/asalinas21'',
       website = lit ''locatahealth.com''\<rparr>),
    (lit ''Pleom'',
     \<lparr>founder_first = lit ''Royce'',
       founder_last = lit ''Arockiasamy'',
       founder_email = lit ''royce@pleom.com'',
       founder_linkedin = lit ''linkedin.com/in/roycea1'',
       website = lit ''pleom.com''\<rparr>),
    (lit ''Convexia'',
     \<lparr>founder_first = lit ''Ayaan'',
       founder_last = lit ''Parikh'',
       founder_email = lit ''ayaan@convexia.bio'',
       founder_linkedin = lit ''linkedin.com/in/ayaan-parikh'',
       website = lit ''convexia.bio''\<rparr>),
    (lit ''SigmanticAI'',
     \<lparr>founder_first = lit ''Rohil'',
       founder_last = lit ''Khare'',
       founder_email = lit ''rohil@sigmanticai.com'',
       founder_linkedin = lit ''linkedin.com/in/rohil-khare'',
       website = lit ''sigmanticai.com''\<rparr>),
    (lit ''Opennote'',
     \<lparr>founder_first = lit ''Rishi'',
       founder_last = lit ''Srihari'',
       founder_email = lit ''rishi@opennote.com'',
       founder_linkedin = lit ''linkedin.com/in/rishi-srihari'',
       website = lit ''opennote.com''\<rparr>),
    (lit ''Sira'',
     \<lparr>founder_first = lit ''Nathan'',
       founder_last = lit ''Belaye'',
       founder_email = lit ''nathan@sira.team'',
       founder_linkedin = lit ''linkedin.com/in/nathan-belaye-931005149'',
       website = lit ''sira.team''\<rparr>),
    (lit ''F4'',
     \<lparr>founder_first = lit ''Paul'',
       founder_last = lit ''Shin'',
       founder_email = lit ''paul@f4.dev'',
       founder_linkedin = lit ''linkedin.com/in/paul-hyoungsang-shin'',
       website = lit ''f4.dev''\<rparr>),
    (lit ''Eden'',
     \<lparr>founder_first = lit ''Alex'',
       founder_last = lit ''Talamonti'',
       founder_email = lit ''alex@tryeden.ai'',
       founder_linkedin = lit ''linkedin.com/in/alexander-talamonti'',
       website = lit ''tryeden.ai''\<rparr>),
    (lit ''Altur'',
     \<lparr>founder_first = lit ''Luis'',
       founder_last = lit ''Olave'',
       founder_email = lit ''luis@altur.io'',
       founder_linkedin = lit ''linkedin.com/in/luis-olave'',
       website = lit ''altur.io''\<rparr>),
    (lit ''PARES AI'',
     \<lparr>founder_first = lit ''Zihao'',
       founder_last = lit ''Wang'',
       founder_email = lit ''zihao@pares.ai'',
       founder_linkedin = lit ''linkedin.com/in/zihao-wang-mh'',
       website = lit ''pares.ai''\<rparr>),
    (lit ''Avelis Health'',
     \<lparr>founder_first = lit ''Angel'',
       founder_last = lit ''Onuoha'',
       founder_email = lit ''angel@avelishealth.com'',
       founder_linkedin = lit ''linkedin.com/in/angel-onuoha'',
       website = lit ''avelishealth.com''\<rparr>),
    (lit ''Nautilus'',
     \<lparr>founder_first = lit ''Amayr'',
       founder_last = lit ''Babar'',
       founder_email = lit ''amayr@nautilus.co'',
       founder_linkedin = lit ''linkedin.com/in/amayrbabar'',
       website = lit ''nautilus.co''\<rparr>),
    (lit ''Humoniq'',
     \<lparr>founder_first = lit ''Todd'',
       founder_last = lit ''Sullivan'',
       founder_email = lit ''todd@humoniq.ai'',
       founder_linkedin = lit ''linkedin.com/in/todsul'',
       website = lit ''humoniq.ai''\<rparr>),
    (lit ''Palace'',
     \<lparr>founder_first = lit ''Leeds'',
       founder_last = lit ''Rising'',
       founder_email = lit ''leeds@palace.so'',
       founder_linkedin = lit ''linkedin.com/in/leedsrising'',
       website = lit ''palace.so''\<rparr>),
    (lit ''Idler'',
     \<lparr>founder_first = lit ''Ivan'',
       founder_last = lit ''Chub'',
       founder_email = lit ''ivan@idler.ai'',
       founder_linkedin = lit ''linkedin.com/in/ivanchub'',
       website = lit ''idler.ai''\<rparr>),
    (lit ''Floot'',
     \<lparr>founder_first = lit ''Yujian'',
       founder_last = lit ''Yao'',
       founder_email = lit ''yujian@floot.com'',
       founder_linkedin = lit ''linkedin.com/in/yjyao'',
       website = lit ''floot.com''\<rparr>),
    (lit ''Alara'',
     \<lparr>founder_first = lit ''Sabrine'',
       founder_last = lit ''Obbad'',
       founder_email = lit ''sabrine@alaradental.com'',
       founder_linkedin = lit ''linkedin.com/in/sabrineobbad'',
       website = lit ''alaradental.com''\<rparr>),
    (lit ''Socratix AI'',
     \<lparr>founder_first = lit ''Riya'',
       founder_last = lit ''Jagetia'',
       founder_email = lit ''riya@getsocratix.ai'',
       founder_linkedin = lit ''linkedin.com/in/riya-jagetia'',
       website = lit ''getsocratix.ai''\<rparr>),
    (lit ''Minimal AI'',
     \<lparr>founder_first = lit ''Niek'',
       founder_last = lit ''Hogenboom'',
       founder_email = lit ''niek@gominimal.ai'',
       founder_linkedin = lit ''linkedin.com/in/niek-hogenboom'',
       website = lit ''gominimal.ai''\<rparr>),
    (lit ''Risely AI'',
     \<lparr>founder_first = lit ''Shahryar'',
       founder_last = lit ''Abbasi'',
       founder_email = lit ''founders@risely.ai'',
       founder_linkedin = lit ''linkedin.com/in/shahryarabbasi'',
       website = lit ''risely.ai''\<rparr>),
    (lit ''Omnara'',
     \<lparr>founder_first = lit ''Ishaan'',
       founder_last = lit ''Sehgal'',
       founder_email = lit ''ishaan@omnara.com'',
       founder_linkedin = lit ''linkedin.com/in/ishaan-sehgal'',
       website = lit ''omnara.com''\<rparr>),
    (lit ''Knowlify'',
     \<lparr>founder_first = lit ''Ritam'',
       founder_last = lit ''Rana'',
       founder_email = lit ''ritam@knowlify.net'',
       founder_linkedin = lit ''linkedin.com/in/ritamrana'',
       website = lit ''knowlify.net''\<rparr>),
    (lit ''Autosana'',
     \<lparr>founder_first = lit ''Yuvan'',
       founder_last = lit ''Sundrani'',
       founder_email = lit ''yuvan@autosana.ai'',
       founder_linkedin = lit ''linkedin.com/in/yuvan-sundrani'',
       website = lit ''autosana.ai''\<rparr>),
    (lit ''April'',
     \<lparr>founder_first = lit ''Neha'',
       founder_last = lit ''Suresh'',
       founder_email = lit ''neha@tryapril.com'',
       founder_linkedin = lit ''linkedin.com/in/nehasuresh1904'',
       website = lit ''tryapril.com''\<rparr>),
    (lit ''Iron Grid'',
     \<lparr>founder_first = lit ''Fern'',
       founder_last = lit ''Morrison'',
       founder_email = lit ''fern@getirongrid.com'',
       founder_linkedin = lit ''linkedin.com/in/elizabeth-fern-morrison'',
       website = lit ''getirongrid.com''\<rparr>),
    (lit ''Finto'',
     \<lparr>founder_first = lit ''Jonas'',
       founder_last = lit ''Morgner'',
       founder_email = lit ''jonasm@finto.de'',
       founder_linkedin = lit ''linkedin.com/in/jonasmorgner'',
       website = lit ''gofinto.com''\<rparr>),
    (lit ''Motives'',
     \<lparr>founder_first = lit ''Sean'',
       founder_last = lit ''Conley'',
       founder_email = lit ''sean@motives.ai'',
       founder_linkedin = lit ''linkedin.com/in/sean-conley-397b69b8'',
       website = lit ''motives.ai''\<rparr>),
    (lit ''Relling'',
     \<lparr>founder_first = lit ''Jai'',
       founder_last = lit ''Relan'',
       founder_email = lit ''jai@relling.co'',
       founder_linkedin = lit ''linkedin.com/in/jairelan'',
       website = lit ''relling.co''\<rparr>),
    (lit ''mcp-use'',
     \<lparr>founder_first = lit ''Pietro'',
       founder_last = lit ''Zullo'',
       founder_email = lit ''pietro@mcp-use.com'',
       founder_linkedin = lit ''linkedin.com/in/pietrozullo'',
       website = lit ''mcp-use.com''\<rparr>),
    (lit ''Novaflow'',
     \<lparr>founder_first = lit ''Aman'',
       founder_last = lit ''Agarwal'',
       founder_email = lit ''aman@novaflowapp.com'',
       founder_linkedin = lit ''linkedin.com/in/aman-agarwal-ca'',
       website = lit ''novaflowapp.com''\<rparr>),
    (lit ''Perseus Defense'',
     \<lparr>founder_first = lit ''Jason'',
       founder_last = lit ''Cornelius'',
       founder_email = lit ''jason@perseusdefense.com'',
       founder_linkedin = lit ''linkedin.com/in/jason-k-cornelius'',
       website = lit ''perseusdefense.com''\<rparr>),
    (lit ''Phases'',
     \<lparr>founder_first = lit ''James'',
       founder_last = lit ''Wall'',
       founder_email = lit ''james@phases.ai'',
       founder_linkedin = lit ''linkedin.com/in/j-m-wall'',
       website = lit ''phases.ai''\<rparr>),
    (lit ''Solva'',
     \<lparr>founder_first = lit ''Herman'',
       founder_last = lit ''B'' @ [195, 165] @ lit ''verud Olsson'',
       founder_email = lit ''herman@solvatechnology.com'',
       founder_linkedin = lit ''linkedin.com/in/hermanbaverudolsson'',
       website = lit ''solvatechnology.com''\<rparr>),
    (lit ''Albacore Inc.'',
     \<lparr>founder_first = lit ''John'',
       founder_last = lit ''Huddleston'',
       founder_email = lit ''john@albacore.inc'',
       founder_linkedin = lit ''linkedin.com/in/john-huddleston-3584121b7'',
       website = lit ''albacore.inc''\<rparr>),
    (lit ''Riff'',
     \<lparr>founder_first = lit ''Adith'',
       founder_last = lit ''Reddi'',
       founder_email = lit ''adith@goriff.com'',
       founder_linkedin = lit ''linkedin.com/in/adithreddi'',
       website = lit ''goriff.com''\<rparr>),
    (lit ''Mohi'',
     \<lparr>founder_first = lit ''Evan'',
       founder_last = lit ''Seeyave'',
       founder_email = lit ''evan@trymohi.com'',
       founder_linkedin = lit ''linkedin.com/in/evanseeyave'',
       website = lit ''trymohi.com''\<rparr>),
    (lit ''Mimos'',
     \<lparr>founder_first = lit ''Rohit'',
       founder_last = lit ''Sirosh'',
       founder_email = lit ''rohit@trymimos.com'',
       founder_linkedin = lit ''linkedin.com/in/rohit-sirosh'',
       website = lit ''trymimos.com''\<rparr>),
    (lit ''Nozomio'',
     \<lparr>founder_first = lit ''Arlan'',
       founder_last = lit ''Rakhmetzhanov'',
       founder_email = lit ''arlan@nozomio.com'',
       founder_linkedin = lit ''linkedin.com/in/arlan-rakhmetzhanov'',
       website = lit ''nozomio.com''\<rparr>),
    (lit ''VibeFlow'',
     \<lparr>founder_first = lit ''Alessia'',
       founder_last = lit ''Paccagnella'',
       founder_email = lit ''alessia@vibeflow.ai'',
       founder_linkedin = lit ''linkedin.com/in/alepacca'',
       website = lit ''vibeflow.ai''\<rparr>),
    (lit ''Comena'',
     \<lparr>founder_first = lit ''Jiehua'',
       founder_last = lit ''Wu'',
       founder_email = lit ''jiehua.wu@comena.ai'',
       founder_linkedin = lit ''linkedin.com/in/jiehua-wu'',
       website = lit ''comena.ai''\<rparr>),
    (lit ''Normal'',
     \<lparr>founder_first = lit ''Anson'',
       founder_last = lit ''Yu'',
       founder_email = lit ''anson@normalfactory.com'',
       founder_linkedin = lit ''linkedin.com/in/anson-yu-231336141'',
       website = lit ''normalfactory.com''\<rparr>),
    (lit ''GhostEye'',
     \<lparr>founder_first = lit ''Mohammad'',
       founder_last = lit ''Eshan'',
       founder_email = lit ''founders@ghosteye.ai'',
       founder_linkedin = lit ''linkedin.com/in/moheshan'',
       website = lit ''ghosteye.ai''\<rparr>),
    (lit ''Channel3'',
     \<lparr>founder_first = lit ''Alexander'',
       founder_last = lit ''Schiff'',
       founder_email = lit ''founders@trychannel3.com'',
       founder_linkedin = lit ''linkedin.com/in/alexanderschiff'',
       website = lit ''trychannel3.com''\<rparr>),
    (lit ''Epicenter'',
     \<lparr>founder_first = lit ''Braden'',
       founder_last = lit ''Wong'',
       founder_email = lit ''braden@epicenter.md'',
       founder_linkedin = lit ''linkedin.com/in/braden-wong'',
       website = lit ''epicenter.md''\<rparr>),
    (lit ''Candytrail'',
     \<lparr>founder_first = lit ''Aditya'',
       founder_last = lit ''Mahna'',
       founder_email = lit ''founders@candytrail.ai'',
       founder_linkedin = lit ''linkedin.com/in/aditya-mahna-b57256325'',
       website = lit ''candytrail.ai''\<rparr>),
    (lit ''Embedder'',
     \<lparr>founder_first = lit ''Ethan'',
       founder_last = lit ''Gibbs'',
       founder_email = lit ''founders@embedder.dev'',
       founder_linkedin = lit ''linkedin.com/in/etgibbs'',
       website = lit ''embedder.com''\<rparr>),
    (lit ''Flai'',
     \<lparr>founder_first = lit ''Ari'',
       founder_last = lit ''Polakof'',
       founder_email = lit ''founders@useflai.com'',
       founder_linkedin = lit ''linkedin.com/in/ari-polakof-78b976150'',
       website = lit ''useflai.com''\<rparr>),
    (lit ''b-12'',
     \<lparr>founder_first = lit ''Zlatko'',
       founder_last = lit ''Jon'' @ [196] @ lit ''ev'',
       founder_email = lit ''founders@b12-labs.com'',
       founder_linkedin = lit ''linkedin.com/in/zlatkojoncev'',
       website = lit ''b12-labs.com''\<rparr>),
    (lit ''Trace'',
     \<lparr>founder_first = lit ''Tim'',
       founder_last = lit ''Cherkasov'',
       founder_email = lit ''founders@trace.so'',
       founder_linkedin = lit ''linkedin.com/in/timcherkasov'',
       website = lit ''trace.so''\<rparr>),
    (lit ''The Interface'',
     \<lparr>founder_first = lit ''Max'',
       founder_last = lit ''Raven'',
       founder_email = lit ''founders@theinterface.com'',
       founder_linkedin = lit ''linkedin.com/in/ravenmax'',
       website = lit ''theinterface.com''\<rparr>),
    (lit ''IronLedger.ai'',
     \<lparr>founder_first = lit ''Nick'',
       founder_last = lit ''Amore'',
       founder_email = lit ''sales@ironledger.ai'',
       founder_linkedin = lit ''linkedin.com/in/nick-amore-6391a7129'',
       website = lit ''ironledger.ai''\<rparr>),
    (lit ''Doe'',
     \<lparr>founder_first = lit ''Adrian'',
       founder_last = lit ''Barbir'',
       founder_email = lit ''founders@doe.so'',
       founder_linkedin = lit ''linkedin.com/in/adrianbarbir'',
       website = lit ''doe.so''\<rparr>)]"

text \<open>The marker stored in \<^verbatim>\<open>data_quality\<close>, as the source file spells it.\<close>

definition REAL_MARK :: pystr where
  "REAL_MARK = [226, 339, 8230] @ lit '' REAL''"

text \<open>
  \<^verbatim>\<open>update_company_with_real_data\<close>: the value of the dict display
  \<^verbatim>\<open>{**company, 'founder_first_name': ..., ..., 'data_quality': ...}\<close>.
\<close>

definition update_company_with_real_data :: "company \<Rightarrow> real_data \<Rightarrow> company" where
  "update_company_with_real_data company real_data =
     (let jobs = dict_get company (lit ''job_openings'')
                   (lit ''Software Engineering Intern, Product Intern'');
          funding_stage = dict_get company (lit ''funding_stage'') (lit ''Seed'');
          amount_raised = dict_get company (lit ''amount_raised'') (lit ''$1.5M'');
          date_raised = dict_get company (lit ''date_raised'') (lit ''Summer 2025'')
      in company
           (lit ''founder_first_name'' \<mapsto> founder_first real_data,
            lit ''founder_last_name'' \<mapsto> founder_last real_data,
            lit ''founder_email'' \<mapsto> founder_email real_data,
            lit ''founder_linkedin'' \<mapsto> founder_linkedin real_data,
            lit ''website'' \<mapsto> website real_data,
            lit ''job_openings'' \<mapsto> jobs,
            lit ''funding_stage'' \<mapsto> funding_stage,
            lit ''amount_raised'' \<mapsto> amount_raised,
            lit ''date_raised'' \<mapsto> date_raised,
            lit ''data_quality'' \<mapsto> REAL_MARK))"

text \<open>The ten keys that the dict display of the merger writes.\<close>

definition merge_keys :: "pystr list" where
  "merge_keys =
     [lit ''founder_first_name'', lit ''founder_last_name'', lit ''founder_email'',
      lit ''founder_linkedin'', lit ''website'', lit ''job_openings'', lit ''funding_stage'',
      lit ''amount_raised'', lit ''date_raised'', lit ''data_quality'']"

text \<open>
  The same function on an object store, to say which dict objects a call touches. A heap
  is the list of the dict objects allocated so far and a reference is an index into it.
  The dict display allocates a new object for its value and the function returns the
  reference to it; a reference that designates no object does not occur in Python and
  gives \<open>None\<close> here.
\<close>

type_synonym heap = "company list"

definition update_company_with_real_data_obj ::
  "heap \<Rightarrow> nat \<Rightarrow> real_data \<Rightarrow> (heap \<times> nat) option" where
  "update_company_with_real_data_obj h company real_data =
     (if company < length h
      then Some (h @ [update_company_with_real_data (h ! company) real_data], length h)
      else None)"

section \<open>The batch driver\<close>

text \<open>
  The \<^verbatim>\<open>for\<close> loop of \<^verbatim>\<open>main\<close> in \<^verbatim>\<open>batch_extract_founders.py\<close>. It walks the rows in
  the order of the file. \<^verbatim>\<open>company.update(updated_company)\<close> changes the row's own dict,
  which no other row shares (the reader builds one dict per row), so the rows are
  passed by value and the updated row is \<open>company ++ updated_company\<close>.
  \<^verbatim>\<open>updated_count\<close> is threaded through the loop.
\<close>

fun update_loop :: "company list \<Rightarrow> nat \<Rightarrow> company list \<times> nat" where
  "update_loop [] updated_count = ([], updated_count)"
| "update_loop (company # rest) updated_count =
     (let company_name = dict_get company (lit ''Company_Name'') []
      in case map_of REAL_FOUNDER_DATA company_name of
           Some real_data \<Rightarrow>
             if is_pattern_data company then
               (let updated_company = update_company_with_real_data company real_data;
                    (rows, n) = update_loop rest (updated_count + 1)
                in ((company ++ updated_company) # rows, n))
             else
               (let (rows, n) = update_loop rest updated_count in (company # rows, n))
         | None \<Rightarrow>
             (let (rows, n) = update_loop rest updated_count in (company # rows, n)))"

text \<open>
  \<^verbatim>\<open>csv.DictWriter(f, fieldnames=fieldnames)\<close> is built with the default
  \<^verbatim>\<open>extrasaction='raise'\<close> and \<^verbatim>\<open>restval=''\<close>: its \<^verbatim>\<open>_dict_to_list\<close> raises
  \<^verbatim>\<open>ValueError\<close> for a row with a key that is not a field name (\<open>None\<close> below), and
  otherwise lays the row out as \<^verbatim>\<open>rowdict.get(key, '')\<close> for each field name in order.
  \<^verbatim>\<open>writerows\<close> writes row after row to the file, which \<^verbatim>\<open>main\<close> has truncated and
  given the header; \<open>written\<close> are the rows written so far. At the first row that
  raises it stops, and the rows written before stay in the file.
\<close>

definition dict_to_list :: "pystr list \<Rightarrow> company \<Rightarrow> pystr list option" where
  "dict_to_list fieldnames rowdict =
     (if dom rowdict \<subseteq> set fieldnames
      then Some (map (\<lambda>key. dict_get rowdict key []) fieldnames)
      else None)"

fun writerows ::
  "pystr list \<Rightarrow> company list \<Rightarrow> pystr list list \<Rightarrow> error + pystr list list" where
  "writerows fieldnames [] written = Inr written"
| "writerows fieldnames (rowdict # rowdicts) written =
     (case dict_to_list fieldnames rowdict of
        None \<Rightarrow> Inl (ValueError written)
      | Some cells \<Rightarrow> writerows fieldnames rowdicts (written @ [cells]))"

text \<open>
  \<^verbatim>\<open>main\<close>, from the rows and the field names that the reader returned (the file has a
  header row) to the rows written after the header and the counts of the run:
  \<^verbatim>\<open>len(companies)\<close>, \<^verbatim>\<open>real_count\<close> and \<^verbatim>\<open>pattern_count\<close>, which the summary prints,
  and \<^verbatim>\<open>updated_count\<close>, the counter of the loop (one line is printed per update). The
  two counts of kinds are computed after the loop, on the updated rows;
  \<^verbatim>\<open>pattern_count\<close> never exceeds the number of rows, so the subtraction on \<open>nat\<close> is
  Python's. When the writer raises, the run ends there and prints no summary; the file
  is left with the header and the rows that the error carries.
\<close>

record summary =
  total :: nat
  updated :: nat
  real_count :: nat
  pattern_count :: nat

definition main :: "pystr list \<Rightarrow> company list \<Rightarrow> error + (pystr list list \<times> summary)" where
  "main fieldnames rows_read =
     (let (companies, updated_count) = update_loop rows_read 0;
          pattern_count = length (filter is_pattern_data companies);
          real_count = length companies - pattern_count
      in case writerows fieldnames companies [] of
           Inl e \<Rightarrow> Inl e
         | Inr written \<Rightarrow>
             Inr (written,
                  \<lparr>total = length companies, updated = updated_count,
                   real_count = real_count, pattern_count = pattern_count\<rparr>))"

section \<open>Rows with missing cells\<close>

text \<open>
  \<^verbatim>\<open>csv.DictReader\<close> builds the row of a line as \<^verbatim>\<open>dict(zip(fieldnames, row))\<close> and, when
  the line has fewer cells than the header has columns, stores \<^verbatim>\<open>restval\<close>, which is
  \<^verbatim>\<open>None\<close>, under each remaining field name. A cell is therefore a string or \<^verbatim>\<open>None\<close>.
  \<open>read_row\<close> is this construction for a line with at least one cell and at most as
  many cells as the header has columns (the reader skips a line without cells, and a
  longer line also gets a key that is no string, which is not modelled).
\<close>

type_synonym cell = "pystr option"

type_synonym csv_row = "pystr \<rightharpoonup> cell"

definition read_row :: "pystr list \<Rightarrow> pystr list \<Rightarrow> csv_row" where
  "read_row fieldnames row =
     (let lf = length fieldnames; lr = length row
      in (Map.empty(take lr fieldnames [\<mapsto>] map Some row))
           (drop lr fieldnames [\<mapsto>] replicate (lf - lr) None))"

text \<open>The row of the reader for a line that has all its cells: the same strings.\<close>

definition str_cells :: "company \<Rightarrow> csv_row" where
  "str_cells company = (\<lambda>key. map_option Some (company key))"

text \<open>
  \<open>row_get d k dflt\<close> is \<^verbatim>\<open>d.get(k, dflt)\<close> on such a row: a key that is present with
  the cell \<^verbatim>\<open>None\<close> yields \<^verbatim>\<open>None\<close>, not the default. \<open>cell_strip v\<close> is \<^verbatim>\<open>v.strip()\<close>,
  which raises \<^verbatim>\<open>AttributeError\<close> when \<open>v\<close> is \<^verbatim>\<open>None\<close>.
\<close>

definition row_get :: "csv_row \<Rightarrow> pystr \<Rightarrow> pystr \<Rightarrow> cell" where
  "row_get d k dflt = (case d k of None \<Rightarrow> Some dflt | Some v \<Rightarrow> v)"

definition cell_strip :: "cell \<Rightarrow> error + pystr" where
  "cell_strip v = (case v of None \<Rightarrow> Inl AttributeError | Some s \<Rightarrow> Inr (strip s))"

text \<open>
  \<^verbatim>\<open>is_pattern_data\<close> of \<^verbatim>\<open>batch_extract_founders.py\<close> on these rows. The two assignments
  run before the tests, so a \<^verbatim>\<open>None\<close> in \<^verbatim>\<open>founder_first_name\<close> or in \<^verbatim>\<open>founder_email\<close>
  raises whatever the other holds; \<^verbatim>\<open>founder_linkedin\<close> is read only when the first two
  tests have failed. The variables \<^verbatim>\<open>founder_first\<close> and \<^verbatim>\<open>founder_email\<close> of the source
  are \<open>first_name\<close> and \<open>email\<close> here, as the fields of an override have their names.
\<close>

definition is_pattern_data_csv :: "csv_row \<Rightarrow> error + bool" where
  "is_pattern_data_csv company =
     (case cell_strip (row_get company (lit ''founder_first_name'') []) of
        Inl e \<Rightarrow> Inl e
      | Inr first_name \<Rightarrow>
          (case cell_strip (row_get company (lit ''founder_email'') []) of
             Inl e \<Rightarrow> Inl e
           | Inr email \<Rightarrow>
               if first_name = lit ''Team'' \<or> first_name = [] then Inr True
               else if startswith email (lit ''hello@'') then Inr True
               else
                 (case cell_strip (row_get company (lit ''founder_linkedin'') []) of
                    Inl e \<Rightarrow> Inl e
                  | Inr linkedin \<Rightarrow> if linkedin = [] then Inr True else Inr False)))"

text \<open>
  \<^verbatim>\<open>update_company_with_real_data\<close> on these rows. It calls no method on a cell, so it
  does not raise; a \<^verbatim>\<open>None\<close> cell in one of the four fields with a default is kept.
\<close>

definition update_company_with_real_data_csv :: "csv_row \<Rightarrow> real_data \<Rightarrow> csv_row" where
  "update_company_with_real_data_csv company real_data =
     (let jobs = row_get company (lit ''job_openings'')
                   (lit ''Software Engineering Intern, Product Intern'');
          funding_stage = row_get company (lit ''funding_stage'') (lit ''Seed'');
          amount_raised = row_get company (lit ''amount_raised'') (lit ''$1.5M'');
          date_raised = row_get company (lit ''date_raised'') (lit ''Summer 2025'')
      in company
           (lit ''founder_first_name'' \<mapsto> Some (founder_first real_data),
            lit ''founder_last_name'' \<mapsto> Some (founder_last real_data),
            lit ''founder_email'' \<mapsto> Some (founder_email real_data),
            lit ''founder_linkedin'' \<mapsto> Some (founder_linkedin real_data),
            lit ''website'' \<mapsto> Some (website real_data),
            lit ''job_openings'' \<mapsto> jobs,
            lit ''funding_stage'' \<mapsto> funding_stage,
            lit ''amount_raised'' \<mapsto> amount_raised,
            lit ''date_raised'' \<mapsto> date_raised,
            lit ''data_quality'' \<mapsto> Some REAL_MARK))"

text \<open>
  The loop of \<^verbatim>\<open>main\<close> on these rows. \<^verbatim>\<open>company_name in REAL_FOUNDER_DATA\<close> is false for
  \<^verbatim>\<open>None\<close>, which is no key of the table, and \<^verbatim>\<open>and\<close> calls \<^verbatim>\<open>is_pattern_data\<close> only for
  a name of the table. An exception of that call ends the loop and the run.
\<close>

fun update_loop_csv :: "csv_row list \<Rightarrow> nat \<Rightarrow> error + (csv_row list \<times> nat)" where
  "update_loop_csv [] updated_count = Inr ([], updated_count)"
| "update_loop_csv (company # rest) updated_count =
     (let company_name = row_get company (lit ''Company_Name'') []
      in case (case company_name of None \<Rightarrow> None | Some name \<Rightarrow> map_of REAL_FOUNDER_DATA name) of
           Some real_data \<Rightarrow>
             (case is_pattern_data_csv company of
                Inl e \<Rightarrow> Inl e
              | Inr True \<Rightarrow>
                  (let updated_company = update_company_with_real_data_csv company real_data
                   in case update_loop_csv rest (updated_count + 1) of
                        Inl e \<Rightarrow> Inl e
                      | Inr (rows, n) \<Rightarrow> Inr ((company ++ updated_company) # rows, n))
              | Inr False \<Rightarrow>
                  (case update_loop_csv rest updated_count of
                     Inl e \<Rightarrow> Inl e
                   | Inr (rows, n) \<Rightarrow> Inr (company # rows, n)))
         | None \<Rightarrow>
             (case update_loop_csv rest updated_count of
                Inl e \<Rightarrow> Inl e
              | Inr (rows, n) \<Rightarrow> Inr (company # rows, n)))"

text \<open>
  \<^verbatim>\<open>sum(1 for c in companies if is_pattern_data(c))\<close>: the rows are classified in order,
  and the first call that raises ends the run.
\<close>

fun count_pattern_csv :: "csv_row list \<Rightarrow> error + nat" where
  "count_pattern_csv [] = Inr 0"
| "count_pattern_csv (c # companies) =
     (case is_pattern_data_csv c of
        Inl e \<Rightarrow> Inl e
      | Inr b \<Rightarrow>
          (case count_pattern_csv companies of
             Inl e \<Rightarrow> Inl e
           | Inr n \<Rightarrow> Inr ((if b then 1 else 0) + n)))"

text \<open>The writer on these rows; it writes the empty text for a \<^verbatim>\<open>None\<close> cell.\<close>

definition dict_to_list_csv :: "pystr list \<Rightarrow> csv_row \<Rightarrow> pystr list option" where
  "dict_to_list_csv fieldnames rowdict =
     (if dom rowdict \<subseteq> set fieldnames
      then Some (map (\<lambda>key. case row_get rowdict key [] of None \<Rightarrow> [] | Some s \<Rightarrow> s) fieldnames)
      else None)"

fun writerows_csv ::
  "pystr list \<Rightarrow> csv_row list \<Rightarrow> pystr list list \<Rightarrow> error + pystr list list" where
  "writerows_csv fieldnames [] written = Inr written"
| "writerows_csv fieldnames (rowdict # rowdicts) written =
     (case dict_to_list_csv fieldnames rowdict of
        None \<Rightarrow> Inl (ValueError written)
      | Some cells \<Rightarrow> writerows_csv fieldnames rowdicts (written @ [cells]))"

text \<open>
  \<^verbatim>\<open>main\<close> on these rows: the loop, then the count of the placeholder rows, and only then
  the file is opened for writing.
\<close>

definition main_csv ::
  "pystr list \<Rightarrow> csv_row list \<Rightarrow> error + (pystr list list \<times> summary)" where
  "main_csv fieldnames rows_read =
     (case update_loop_csv rows_read 0 of
        Inl e \<Rightarrow> Inl e
      | Inr (companies, updated_count) \<Rightarrow>
          (case count_pattern_csv companies of
             Inl e \<Rightarrow> Inl e
           | Inr counted \<Rightarrow>
               (let pattern_count = counted;
                    real_count = length companies - pattern_count
                in case writerows_csv fieldnames companies [] of
                     Inl e \<Rightarrow> Inl e
                   | Inr written \<Rightarrow>
                       Inr (written,
                            \<lparr>total = length companies, updated = updated_count,
                             real_count = real_count, pattern_count = pattern_count\<rparr>))))"

section \<open>The slug as the specification words it\<close>

text \<open>
  The specification speaks of the path segment that follows the marker of a
  \<^verbatim>\<open>/companies/\<close> path segment. \<open>segment_at s i\<close> says that such a segment starts at
  position \<open>i\<close> of \<open>s\<close>: the eleven code points of \<^verbatim>\<open>/companies/\<close> stand there, and a code
  point other than \<^verbatim>\<open>/\<close> comes next.
\<close>

definition segment_at :: "pystr \<Rightarrow> nat \<Rightarrow> bool" where
  "segment_at s i \<longleftrightarrow>
     take 11 (drop i s) = lit ''/companies/'' \<and> i + 11 < length s \<and> s ! (i + 11) \<noteq> 47"

section \<open>The driver as the specification words it\<close>

text \<open>
  The specification speaks of the rows whose company name is in the override table, of
  the row that the driver is to put out for an input row (its merge result when the
  name is in the table and the row is classified placeholder, the row itself otherwise),
  and of a row as it stands in the file under a header. These follow its words, for
  comparison with \<open>main\<close>.
\<close>

definition has_override :: "company \<Rightarrow> bool" where
  "has_override company \<longleftrightarrow>
     map_of REAL_FOUNDER_DATA (dict_get company (lit ''Company_Name'') []) \<noteq> None"

definition spec_row :: "company \<Rightarrow> company" where
  "spec_row company =
     (case map_of REAL_FOUNDER_DATA (dict_get company (lit ''Company_Name'') []) of
        Some real_data \<Rightarrow>
          if is_pattern_data company then update_company_with_real_data company real_data
          else company
      | None \<Rightarrow> company)"

abbreviation cells :: "pystr list \<Rightarrow> company \<Rightarrow> pystr list" where
  "cells fieldnames rowdict \<equiv> map (\<lambda>key. dict_get rowdict key []) fieldnames"

section \<open>Concrete inputs\<close>

text \<open>
  A header with the columns that the scripts read and write, and three rows as the reader
  returns them for it: a placeholder row of a company of the table, a placeholder row
  of a company that the table does not have, and a row with real founder data.
\<close>

definition ex_fieldnames :: "pystr list" where
  "ex_fieldnames =
     [lit ''Company_Name'', lit ''YC_Link'', lit ''founder_first_name'',
      lit ''founder_last_name'', lit ''founder_email'', lit ''founder_linkedin'',
      lit ''website'', lit ''job_openings'', lit ''funding_stage'', lit ''amount_raised'',
      lit ''date_raised'', lit ''data_quality'']"

definition row_known :: company where
  "row_known = Map.empty
     (lit ''Company_Name'' \<mapsto> lit ''Uplift AI'',
      lit ''YC_Link'' \<mapsto> lit ''https://www.ycombinator.com/companies/uplift-ai'',
      lit ''founder_first_name'' \<mapsto> lit ''Team'',
      lit ''founder_last_name'' \<mapsto> [],
      lit ''founder_email'' \<mapsto> lit ''hello@upliftai.org'',
      lit ''founder_linkedin'' \<mapsto> [],
      lit ''website'' \<mapsto> lit ''upliftai.org'',
      lit ''job_openings'' \<mapsto> [],
      lit ''funding_stage'' \<mapsto> lit ''Seed'',
      lit ''amount_raised'' \<mapsto> [],
      lit ''date_raised'' \<mapsto> [],
      lit ''data_quality'' \<mapsto> lit ''PATTERN'')"

definition row_unknown :: company where
  "row_unknown = Map.empty
     (lit ''Company_Name'' \<mapsto> lit ''Acme Robotics'',
      lit ''YC_Link'' \<mapsto> lit ''https://www.ycombinator.com/companies/acme-robotics'',
      lit ''founder_first_name'' \<mapsto> lit ''Team'',
      lit ''founder_last_name'' \<mapsto> [],
      lit ''founder_email'' \<mapsto> lit ''hello@acme.example'',
      lit ''founder_linkedin'' \<mapsto> [],
      lit ''website'' \<mapsto> lit ''acme.example'',
      lit ''job_openings'' \<mapsto> [],
      lit ''funding_stage'' \<mapsto> [],
      lit ''amount_raised'' \<mapsto> [],
      lit ''date_raised'' \<mapsto> [],
      lit ''data_quality'' \<mapsto> lit ''PATTERN'')"

definition row_real :: company where
  "row_real = Map.empty
     (lit ''Company_Name'' \<mapsto> lit ''Initech'',
      lit ''YC_Link'' \<mapsto> lit ''https://www.ycombinator.com/companies/initech'',
      lit ''founder_first_name'' \<mapsto> lit ''Ada'',
      lit ''founder_last_name'' \<mapsto> lit ''Byron'',
      lit ''founder_email'' \<mapsto> lit ''ada@initech.example'',
      lit ''founder_linkedin'' \<mapsto> lit ''linkedin.com/in/ada-byron'',
      lit ''website'' \<mapsto> lit ''initech.example'',
      lit ''job_openings'' \<mapsto> lit ''Engineering Intern'',
      lit ''funding_stage'' \<mapsto> lit ''Seed'',
      lit ''amount_raised'' \<mapsto> lit ''$2M'',
      lit ''date_raised'' \<mapsto> lit ''Summer 2025'',
      lit ''data_quality'' \<mapsto> lit ''REAL'')"

text \<open>The value of the table for \<^verbatim>\<open>Uplift AI\<close>, its first item.\<close>

definition uplift_data :: real_data where
  "uplift_data =
     \<lparr>founder_first = lit ''Hammad'', founder_last = lit ''Malik'',
      founder_email = lit ''hammad@upliftai.org'',
      founder_linkedin = lit ''linkedin.com/in/hammad2'', website = lit ''upliftai.org''\<rparr>"

text \<open>
  The row that the reader returns, under the header above, for the line
  \<^verbatim>\<open>Acme Robotics,https://www.ycombinator.com/companies/acme-robotics\<close>, which has two
  cells: the ten other columns hold \<^verbatim>\<open>None\<close>.
\<close>

definition short_line :: "pystr list" where
  "short_line =
     [lit ''Acme Robotics'', lit ''https://www.ycombinator.com/companies/acme-robotics'']"

definition short_row :: csv_row where
  "short_row = read_row ex_fieldnames short_line"

section \<open>Literals, trimming and prefixes\<close>

lemma lit_eq_iff: "lit a = lit b \<longleftrightarrow> a = b"
  unfolding lit_def by (simp add: inj_map_eq_map inj_of_char)

lemma lit_eq_Nil_iff: "lit a = [] \<longleftrightarrow> a = []"
  by (simp add: lit_def)

lemma Nil_eq_lit_iff: "[] = lit a \<longleftrightarrow> a = []"
  by (auto simp add: lit_def)

lemma strip_Nil: "strip [] = []"
  by (simp add: strip_def)

lemma strip_id:
  assumes "s \<noteq> []" and "\<not> isspace (hd s)" and "\<not> isspace (last s)"
  shows "strip s = s"
proof -
  have keep: "dropWhile isspace t = t" if "t \<noteq> []" "\<not> isspace (hd t)" for t
    using that by (cases t) auto
  have front: "dropWhile isspace s = s"
    using assms by (intro keep)
  have rear: "dropWhile isspace (rev s) = rev s"
    using assms by (intro keep) (simp_all add: hd_rev)
  show ?thesis
    unfolding strip_def by (simp add: front rear)
qed

lemma strip_lit:
  "a \<noteq> [] \<Longrightarrow> \<not> isspace (of_char (hd a)) \<Longrightarrow> \<not> isspace (of_char (last a))
   \<Longrightarrow> strip (lit a) = lit a"
  by (rule strip_id) (simp_all add: lit_def hd_map last_map)

lemma startswith_lit: "startswith (lit a) (lit b) \<longleftrightarrow> take (length b) a = b"
  unfolding startswith_def lit_def by (simp add: take_map inj_map_eq_map inj_of_char)

lemmas lit_simps =
  lit_eq_iff lit_eq_Nil_iff Nil_eq_lit_iff strip_lit strip_Nil startswith_lit isspace_def

section \<open>Properties of the classifier\<close>

text \<open>
  On a row whose cells are all strings, a key that is absent from the row is read as the
  empty string, and the result is true exactly when the trimmed first name is
  \<^verbatim>\<open>Team\<close> or empty, or the trimmed email starts with \<^verbatim>\<open>hello@\<close>, or the trimmed
  LinkedIn value is empty.
\<close>

lemma is_pattern_data_iff:
  "is_pattern_data company \<longleftrightarrow>
     strip (case company (lit ''founder_first_name'') of None \<Rightarrow> [] | Some v \<Rightarrow> v) = lit ''Team''
     \<or> strip (case company (lit ''founder_first_name'') of None \<Rightarrow> [] | Some v \<Rightarrow> v) = []
     \<or> startswith (strip (case company (lit ''founder_email'') of None \<Rightarrow> [] | Some v \<Rightarrow> v))
          (lit ''hello@'')
     \<or> strip (case company (lit ''founder_linkedin'') of None \<Rightarrow> [] | Some v \<Rightarrow> v) = []"
  unfolding is_pattern_data_def dict_get_def Let_def by auto

lemma is_pattern_data_cong:
  assumes "dict_get c1 (lit ''founder_first_name'') [] = dict_get c2 (lit ''founder_first_name'') []"
    and "dict_get c1 (lit ''founder_email'') [] = dict_get c2 (lit ''founder_email'') []"
    and "dict_get c1 (lit ''founder_linkedin'') [] = dict_get c2 (lit ''founder_linkedin'') []"
  shows "is_pattern_data c1 = is_pattern_data c2"
  unfolding is_pattern_data_def using assms by simp

text \<open>
  C8: the classification is a function of the record's three founder fields alone. Two
  records that agree on \<^verbatim>\<open>founder_first_name\<close>, \<^verbatim>\<open>founder_email\<close> and
  \<^verbatim>\<open>founder_linkedin\<close> (present with the same value, or absent in both) are classified
  alike, whatever their other fields hold; \<open>is_pattern_data\<close> takes no other argument,
  so neither other rows nor earlier runs can enter.
\<close>

theorem is_pattern_data_pure:
  assumes "c1 (lit ''founder_first_name'') = c2 (lit ''founder_first_name'')"
    and "c1 (lit ''founder_email'') = c2 (lit ''founder_email'')"
    and "c1 (lit ''founder_linkedin'') = c2 (lit ''founder_linkedin'')"
  shows "is_pattern_data c1 = is_pattern_data c2"
  by (rule is_pattern_data_cong) (simp_all add: dict_get_def assms)

theorem is_pattern_data_pure_witness:
  "row_real \<noteq> row_real(lit ''Company_Name'' \<mapsto> lit ''Globex'', lit ''website'' \<mapsto> [])
   \<and> is_pattern_data row_real
       = is_pattern_data (row_real(lit ''Company_Name'' \<mapsto> lit ''Globex'', lit ''website'' \<mapsto> []))"
proof
  have "row_real (lit ''website'') \<noteq> Some []"
    by (simp add: row_real_def lit_eq_iff lit_eq_Nil_iff)
  then show "row_real \<noteq> row_real(lit ''Company_Name'' \<mapsto> lit ''Globex'', lit ''website'' \<mapsto> [])"
    by (metis fun_upd_same)
  show "is_pattern_data row_real
       = is_pattern_data (row_real(lit ''Company_Name'' \<mapsto> lit ''Globex'', lit ''website'' \<mapsto> []))"
    by (rule is_pattern_data_pure) (simp_all add: lit_eq_iff)
qed

lemma needing_loop_filter:
  "needing_loop reader companies = companies @ filter is_pattern_data reader"
  by (induction reader arbitrary: companies) (simp_all add: is_pattern_data_def Let_def)

text \<open>
  C9: the copies of the classifier agree on every record. \<open>is_pattern_data\<close> of
  \<^verbatim>\<open>get_founders_from_yc.py\<close> returns what \<open>is_pattern_data\<close> of
  \<^verbatim>\<open>batch_extract_founders.py\<close> returns, and the \<^verbatim>\<open>elif\<close> chain of
  \<^verbatim>\<open>get_companies_needing_founders\<close> selects, in order, exactly the rows that
  \<open>is_pattern_data\<close> classifies true.
\<close>

theorem classifiers_agree:
  "is_pattern_data_yc company = is_pattern_data company
   \<and> get_companies_needing_founders reader = filter is_pattern_data reader"
  by (simp add: is_pattern_data_yc_def is_pattern_data_def get_companies_needing_founders_def
      needing_loop_filter)

section \<open>The classifier on rows with missing cells\<close>

text \<open>On a row whose cells are all strings the two translations agree.\<close>

lemma row_get_str_cells: "row_get (str_cells r) k dflt = Some (dict_get r k dflt)"
  by (simp add: row_get_def str_cells_def dict_get_def split: option.split)

lemma is_pattern_data_csv_str_cells: "is_pattern_data_csv (str_cells r) = Inr (is_pattern_data r)"
  by (simp add: is_pattern_data_csv_def is_pattern_data_def row_get_str_cells cell_strip_def)

lemma short_row_cells:
  "short_row (lit ''Company_Name'') = Some (Some (lit ''Acme Robotics''))"
  "short_row (lit ''founder_first_name'') = Some None"
  "short_row (lit ''founder_email'') = Some None"
  "short_row (lit ''founder_linkedin'') = Some None"
  by (simp_all add: short_row_def read_row_def ex_fieldnames_def short_line_def lit_eq_iff)

lemma short_row_raises: "is_pattern_data_csv short_row = Inl AttributeError"
  by (simp add: is_pattern_data_csv_def row_get_def cell_strip_def short_row_cells)

text \<open>
  C1: the claim has every record classified without raising, a missing field counting as
  the empty string. The code does so for a key that the row does not have, and not
  for a cell that the line does not have: in the row that the reader returns for the
  two-cell line \<open>short_line\<close> the three founder fields are present and hold \<^verbatim>\<open>None\<close>,
  \<^verbatim>\<open>company.get('founder_first_name', '')\<close> yields that \<^verbatim>\<open>None\<close>, and \<^verbatim>\<open>.strip()\<close> raises
  \<^verbatim>\<open>AttributeError\<close>.
\<close>

theorem is_pattern_data_short_line:
  "short_row (lit ''founder_first_name'') = Some None
   \<and> short_row (lit ''founder_email'') = Some None
   \<and> short_row (lit ''founder_linkedin'') = Some None
   \<and> row_get short_row (lit ''founder_first_name'') [] = None
   \<and> is_pattern_data_csv short_row = Inl AttributeError"
  by (simp add: short_row_cells short_row_raises row_get_def)

section \<open>Properties of the slug extractor\<close>

lemma length_marker: "length (lit ''/companies/'') = 11"
  by (simp add: lit_def)

lemma segment_at_Nil: "\<not> segment_at [] i"
  by (simp add: segment_at_def)

lemma segment_at_Suc: "segment_at (c # cs) (Suc i) = segment_at cs i"
  by (simp add: segment_at_def add.commute)

lemma drop_shift: "drop (Suc i + 11) (c # cs) = drop (i + 11) cs"
proof -
  have "Suc i + 11 = Suc (i + 11)" by simp
  then show ?thesis by (simp only: drop_Suc_Cons)
qed

lemma takeWhile_nonempty: "takeWhile P xs \<noteq> [] \<longleftrightarrow> xs \<noteq> [] \<and> P (hd xs)"
  by (cases xs) auto

lemma match_at_Some:
  "match_at s = Some g \<longleftrightarrow> segment_at s 0 \<and> g = takeWhile (\<lambda>c. c \<noteq> 47) (drop 11 s)"
proof -
  have "takeWhile (\<lambda>c. c \<noteq> 47) (drop 11 s) \<noteq> [] \<longleftrightarrow> 11 < length s \<and> s ! 11 \<noteq> 47"
    by (auto simp add: takeWhile_nonempty hd_drop_conv_nth)
  then show ?thesis
    by (auto simp add: match_at_def segment_at_def startswith_def length_marker Let_def)
qed

lemma match_at_None: "match_at s = None \<longleftrightarrow> \<not> segment_at s 0"
  using match_at_Some [of s] by (cases "match_at s") auto

lemma re_search_Some:
  "re_search s = Some g \<longleftrightarrow>
     (\<exists>i. segment_at s i \<and> (\<forall>j<i. \<not> segment_at s j)
          \<and> g = takeWhile (\<lambda>c. c \<noteq> 47) (drop (i + 11) s))"
proof (induction s)
  case Nil
  show ?case by (simp add: segment_at_Nil)
next
  case (Cons c cs)
  show ?case
  proof (cases "segment_at (c # cs) 0")
    case True
    then have m: "match_at (c # cs) = Some (takeWhile (\<lambda>c. c \<noteq> 47) (drop 11 (c # cs)))"
      by (simp add: match_at_Some)
    have "(\<exists>i. segment_at (c # cs) i \<and> (\<forall>j<i. \<not> segment_at (c # cs) j)
          \<and> g = takeWhile (\<lambda>c. c \<noteq> 47) (drop (i + 11) (c # cs)))
        \<longleftrightarrow> g = takeWhile (\<lambda>c. c \<noteq> 47) (drop 11 (c # cs))"
    proof
      assume "\<exists>i. segment_at (c # cs) i \<and> (\<forall>j<i. \<not> segment_at (c # cs) j)
          \<and> g = takeWhile (\<lambda>c. c \<noteq> 47) (drop (i + 11) (c # cs))"
      then obtain i where i: "\<forall>j<i. \<not> segment_at (c # cs) j"
        "g = takeWhile (\<lambda>c. c \<noteq> 47) (drop (i + 11) (c # cs))" by blast
      from i(1) True have "i = 0" by (cases i) auto
      with i(2) show "g = takeWhile (\<lambda>c. c \<noteq> 47) (drop 11 (c # cs))" by simp
    next
      assume "g = takeWhile (\<lambda>c. c \<noteq> 47) (drop 11 (c # cs))"
      with True show "\<exists>i. segment_at (c # cs) i \<and> (\<forall>j<i. \<not> segment_at (c # cs) j)
          \<and> g = takeWhile (\<lambda>c. c \<noteq> 47) (drop (i + 11) (c # cs))"
        by (intro exI [of _ 0]) simp
    qed
    with m show ?thesis by auto
  next
    case False
    then have m: "match_at (c # cs) = None"
      by (simp add: match_at_None)
    have "(\<exists>i. segment_at (c # cs) i \<and> (\<forall>j<i. \<not> segment_at (c # cs) j)
          \<and> g = takeWhile (\<lambda>c. c \<noteq> 47) (drop (i + 11) (c # cs)))
        \<longleftrightarrow> (\<exists>i. segment_at cs i \<and> (\<forall>j<i. \<not> segment_at cs j)
          \<and> g = takeWhile (\<lambda>c. c \<noteq> 47) (drop (i + 11) cs))"
    proof
      assume "\<exists>i. segment_at (c # cs) i \<and> (\<forall>j<i. \<not> segment_at (c # cs) j)
          \<and> g = takeWhile (\<lambda>c. c \<noteq> 47) (drop (i + 11) (c # cs))"
      then obtain i where i: "segment_at (c # cs) i" "\<forall>j<i. \<not> segment_at (c # cs) j"
        "g = takeWhile (\<lambda>c. c \<noteq> 47) (drop (i + 11) (c # cs))" by blast
      from i(1) False obtain k where k: "i = Suc k" by (cases i) auto
      have "\<forall>j<k. \<not> segment_at cs j"
        using i(2) k segment_at_Suc [of c cs] by auto
      moreover have "segment_at cs k"
        using i(1) k by (simp add: segment_at_Suc)
      moreover have "g = takeWhile (\<lambda>c. c \<noteq> 47) (drop (k + 11) cs)"
        using i(3) unfolding k drop_shift .
      ultimately show "\<exists>i. segment_at cs i \<and> (\<forall>j<i. \<not> segment_at cs j)
          \<and> g = takeWhile (\<lambda>c. c \<noteq> 47) (drop (i + 11) cs)"
        by blast
    next
      assume "\<exists>i. segment_at cs i \<and> (\<forall>j<i. \<not> segment_at cs j)
          \<and> g = takeWhile (\<lambda>c. c \<noteq> 47) (drop (i + 11) cs)"
      then obtain i where i: "segment_at cs i" "\<forall>j<i. \<not> segment_at cs j"
        "g = takeWhile (\<lambda>c. c \<noteq> 47) (drop (i + 11) cs)" by blast
      have "\<forall>j<Suc i. \<not> segment_at (c # cs) j"
      proof (intro allI impI)
        fix j assume "j < Suc i"
        then show "\<not> segment_at (c # cs) j"
          using False i(2) by (cases j) (auto simp add: segment_at_Suc)
      qed
      moreover have "segment_at (c # cs) (Suc i)"
        using i(1) by (simp add: segment_at_Suc)
      moreover have "g = takeWhile (\<lambda>c. c \<noteq> 47) (drop (Suc i + 11) (c # cs))"
        using i(3) unfolding drop_shift .
      ultimately show "\<exists>i. segment_at (c # cs) i \<and> (\<forall>j<i. \<not> segment_at (c # cs) j)
          \<and> g = takeWhile (\<lambda>c. c \<noteq> 47) (drop (i + 11) (c # cs))"
        by blast
    qed
    with m Cons.IH show ?thesis by simp
  qed
qed

lemma re_search_None: "re_search s = None \<longleftrightarrow> (\<forall>i. \<not> segment_at s i)"
proof
  assume n: "re_search s = None"
  show "\<forall>i. \<not> segment_at s i"
  proof (rule ccontr)
    assume "\<not> (\<forall>i. \<not> segment_at s i)"
    then have ex: "\<exists>i. segment_at s i" by blast
    define i where "i = (LEAST i. segment_at s i)"
    have "segment_at s i" unfolding i_def using ex by (rule LeastI_ex)
    moreover have "\<forall>j<i. \<not> segment_at s j" unfolding i_def using not_less_Least by blast
    ultimately have "re_search s = Some (takeWhile (\<lambda>c. c \<noteq> 47) (drop (i + 11) s))"
      unfolding re_search_Some by blast
    with n show False by simp
  qed
next
  assume "\<forall>i. \<not> segment_at s i"
  then have "\<not> (\<exists>g. re_search s = Some g)"
    unfolding re_search_Some by blast
  then show "re_search s = None" by (cases "re_search s") auto
qed


lemma slug_acme:
  "extract_company_slug (Some (lit ''https://example.com/companies/acme-inc'')) = Some (lit ''acme-inc'')"
  by (simp add: extract_company_slug_def match_at_def startswith_def lit_def)

lemma slug_about:
  "extract_company_slug (Some (lit ''https://example.com/about'')) = None"
  by (simp add: extract_company_slug_def match_at_def startswith_def lit_def)

text \<open>
  C6: \<open>extract_company_slug\<close> is total (it never raises). It returns \<^verbatim>\<open>None\<close> for
  \<^verbatim>\<open>None\<close>, for the empty string, and for every string in which no \<^verbatim>\<open>/companies/\<close>
  segment starts. Otherwise it returns the segment that starts at the leftmost such
  position, verbatim: the code points after the marker up to the next \<^verbatim>\<open>/\<close> or the
  end of the string. It maps \<^verbatim>\<open>https://example.com/companies/acme-inc\<close> to
  \<^verbatim>\<open>acme-inc\<close> and \<^verbatim>\<open>https://example.com/about\<close> to \<^verbatim>\<open>None\<close>.
\<close>

theorem extract_company_slug_spec:
  "extract_company_slug None = None
   \<and> extract_company_slug (Some []) = None
   \<and> (extract_company_slug (Some s) = Some g \<longleftrightarrow>
        (\<exists>i. segment_at s i \<and> (\<forall>j<i. \<not> segment_at s j)
             \<and> g = takeWhile (\<lambda>c. c \<noteq> 47) (drop (i + 11) s)))
   \<and> (extract_company_slug (Some s) = None \<longleftrightarrow> (\<forall>i. \<not> segment_at s i))
   \<and> extract_company_slug (Some (lit ''https://example.com/companies/acme-inc''))
       = Some (lit ''acme-inc'')
   \<and> extract_company_slug (Some (lit ''https://example.com/about'')) = None"
proof -
  have e: "extract_company_slug (Some s) = re_search s"
    by (cases s) (simp_all add: extract_company_slug_def)
  have absent: "extract_company_slug None = None" "extract_company_slug (Some []) = None"
    by (simp_all add: extract_company_slug_def)
  have found: "extract_company_slug (Some s) = Some g \<longleftrightarrow>
        (\<exists>i. segment_at s i \<and> (\<forall>j<i. \<not> segment_at s j)
             \<and> g = takeWhile (\<lambda>c. c \<noteq> 47) (drop (i + 11) s))"
    unfolding e by (rule re_search_Some)
  have missing: "extract_company_slug (Some s) = None \<longleftrightarrow> (\<forall>i. \<not> segment_at s i)"
    unfolding e by (rule re_search_None)
  from absent found missing slug_acme slug_about show ?thesis
    by (intro conjI)
qed

theorem extract_company_slug_spec_witness:
  "segment_at (lit ''x/companies/acme-inc/jobs'') 1
   \<and> \<not> segment_at (lit ''x/companies/acme-inc/jobs'') 0
   \<and> extract_company_slug (Some (lit ''x/companies/acme-inc/jobs'')) = Some (lit ''acme-inc'')"
proof -
  have a: "segment_at (lit ''x/companies/acme-inc/jobs'') 1"
    by (simp add: segment_at_def lit_def)
  have z: "\<not> segment_at (lit ''x/companies/acme-inc/jobs'') 0"
    by (simp add: segment_at_def lit_def)
  then have b: "\<forall>j<1. \<not> segment_at (lit ''x/companies/acme-inc/jobs'') j"
    by simp
  have c: "lit ''acme-inc'' = takeWhile (\<lambda>c. c \<noteq> 47) (drop (1 + 11) (lit ''x/companies/acme-inc/jobs''))"
    by (simp add: lit_def)
  from a b c extract_company_slug_spec [of "lit ''x/companies/acme-inc/jobs''" "lit ''acme-inc''"]
  have "extract_company_slug (Some (lit ''x/companies/acme-inc/jobs'')) = Some (lit ''acme-inc'')"
    by blast
  with a z show ?thesis by simp
qed

section \<open>Properties of the merger\<close>



text \<open>
  C4: merging is idempotent. Merging the result of a merge with the same override again
  gives the same record.
\<close>

theorem merge_idempotent:
  "update_company_with_real_data (update_company_with_real_data company real_data) real_data
     = update_company_with_real_data company real_data"
  by (rule ext) (simp add: update_company_with_real_data_def dict_get_def lit_eq_iff)

lemma merge_other_keys:
  "k \<notin> set merge_keys \<Longrightarrow> update_company_with_real_data company real_data k = company k"
  by (auto simp add: update_company_with_real_data_def merge_keys_def)

lemma dom_merge:
  "dom (update_company_with_real_data company real_data) = dom company \<union> set merge_keys"
  by (auto simp add: update_company_with_real_data_def merge_keys_def)

text \<open>
  C5: the frame of the merger. A field that is none of the ten keys written by the
  merger has in the result what it has in the input (its value, or its absence); every
  field of the result is a field of the input or one of the ten; and on the object
  store the call returns a reference to a new object that holds the merged record, while
  every object that existed before the call, the input record among them, is what it
  was.
\<close>

theorem merge_frame:
  "(k \<notin> set merge_keys \<longrightarrow> update_company_with_real_data company real_data k = company k)
   \<and> dom (update_company_with_real_data company real_data) \<subseteq> dom company \<union> set merge_keys
   \<and> (p < length h \<longrightarrow>
        (\<exists>h'. update_company_with_real_data_obj h p real_data = Some (h', length h)
              \<and> take (length h) h' = h
              \<and> h' ! length h = update_company_with_real_data (h ! p) real_data))"
  by (simp add: merge_other_keys dom_merge update_company_with_real_data_obj_def)

theorem merge_frame_witness:
  "lit ''Company_Name'' \<notin> set merge_keys
   \<and> update_company_with_real_data row_known uplift_data (lit ''Company_Name'')
       = row_known (lit ''Company_Name'')
   \<and> (0::nat) < length [row_known]
   \<and> update_company_with_real_data_obj [row_known] 0 uplift_data
       = Some ([row_known, update_company_with_real_data row_known uplift_data], 1)"
proof -
  have k: "lit ''Company_Name'' \<notin> set merge_keys"
    by (simp add: merge_keys_def lit_eq_iff)
  have p: "(0::nat) < length [row_known]"
    by simp
  from merge_frame [of "lit ''Company_Name''" row_known uplift_data 0 "[row_known]"] k p
  show ?thesis
    by (auto simp add: update_company_with_real_data_obj_def)
qed

section \<open>The override table holds real data only\<close>

lemma table_real:
  "list_all (\<lambda>(n, rd). strip (founder_first rd) \<noteq> lit ''Team'' \<and> strip (founder_first rd) \<noteq> []
      \<and> \<not> startswith (strip (founder_email rd)) (lit ''hello@'')
      \<and> strip (founder_linkedin rd) \<noteq> [])
     REAL_FOUNDER_DATA"
  unfolding REAL_FOUNDER_DATA_def by (simp add: lit_simps)

lemma real_fields_not_pattern:
  assumes "strip (founder_first rd) \<noteq> lit ''Team''" and "strip (founder_first rd) \<noteq> []"
    and "\<not> startswith (strip (founder_email rd)) (lit ''hello@'')"
    and "strip (founder_linkedin rd) \<noteq> []"
  shows "\<not> is_pattern_data (update_company_with_real_data company rd)"
  using assms
  by (simp add: is_pattern_data_def update_company_with_real_data_def dict_get_def lit_eq_iff)

lemma table_entry_real:
  assumes "(n, rd) \<in> set REAL_FOUNDER_DATA"
  shows "\<not> is_pattern_data (update_company_with_real_data company rd)"
proof -
  from table_real assms
  have "strip (founder_first rd) \<noteq> lit ''Team'' \<and> strip (founder_first rd) \<noteq> []
      \<and> \<not> startswith (strip (founder_email rd)) (lit ''hello@'')
      \<and> strip (founder_linkedin rd) \<noteq> []"
    by (auto simp add: list_all_iff)
  then show ?thesis
    by (simp add: real_fields_not_pattern)
qed

lemma uplift_in_table: "(lit ''Uplift AI'', uplift_data) \<in> set REAL_FOUNDER_DATA"
  unfolding REAL_FOUNDER_DATA_def uplift_data_def by simp

lemma row_known_pattern: "is_pattern_data row_known"
  by (simp add: is_pattern_data_def row_known_def dict_get_def lit_simps)

text \<open>
  C10: every item of \<^verbatim>\<open>REAL_FOUNDER_DATA\<close> has a trimmed first name that is neither empty
  nor \<^verbatim>\<open>Team\<close>, a trimmed email that does not start with \<^verbatim>\<open>hello@\<close> and a non-empty
  trimmed LinkedIn value, so whatever record is merged with it, the merged record is not
  classified as a placeholder.
\<close>

theorem table_entries_real:
  assumes "(n, rd) \<in> set REAL_FOUNDER_DATA"
  shows "strip (founder_first rd) \<noteq> [] \<and> strip (founder_first rd) \<noteq> lit ''Team''
      \<and> \<not> startswith (strip (founder_email rd)) (lit ''hello@'')
      \<and> strip (founder_linkedin rd) \<noteq> []
      \<and> \<not> is_pattern_data (update_company_with_real_data company rd)"
  using table_real assms table_entry_real [OF assms] by (auto simp add: list_all_iff)

theorem table_entries_real_witness:
  "(lit ''Uplift AI'', uplift_data) \<in> set REAL_FOUNDER_DATA
   \<and> is_pattern_data row_known
   \<and> \<not> is_pattern_data (update_company_with_real_data row_known uplift_data)"
  using uplift_in_table row_known_pattern table_entries_real [OF uplift_in_table, of row_known]
  by simp

section \<open>Properties of the batch driver\<close>

lemma map_add_merge:
  "company ++ update_company_with_real_data company rd = update_company_with_real_data company rd"
  by (rule ext) (simp add: update_company_with_real_data_def map_add_def lit_eq_iff split: option.split)

lemma update_loop_spec:
  "update_loop rows n
     = (map spec_row rows, n + length (filter (\<lambda>r. is_pattern_data r \<and> has_override r) rows))"
  by (induction rows arbitrary: n)
     (auto simp add: spec_row_def has_override_def map_add_merge Let_def split: option.splits)

lemma writerows_eq:
  "writerows fieldnames rowdicts written
     = (if \<forall>r\<in>set rowdicts. dom r \<subseteq> set fieldnames
        then Inr (written @ map (cells fieldnames) rowdicts)
        else Inl (ValueError (written
               @ map (cells fieldnames) (takeWhile (\<lambda>r. dom r \<subseteq> set fieldnames) rowdicts))))"
  by (induction rowdicts arbitrary: written) (simp_all add: dict_to_list_def)

lemma spec_row_pattern:
  "is_pattern_data (spec_row r) \<longleftrightarrow> is_pattern_data r \<and> \<not> has_override r"
  by (auto simp add: spec_row_def has_override_def split: option.splits
      dest!: map_of_SomeD table_entry_real)


lemma dom_spec_row: "dom (spec_row r) \<subseteq> dom r \<union> set merge_keys"
  by (auto simp add: spec_row_def dom_merge split: option.splits if_splits)

lemma main_eq:
  "main fieldnames rows =
     (if \<forall>r\<in>set rows. dom (spec_row r) \<subseteq> set fieldnames
      then Inr (map (\<lambda>r. cells fieldnames (spec_row r)) rows,
                \<lparr>total = length rows,
                 updated = length (filter (\<lambda>r. is_pattern_data r \<and> has_override r) rows),
                 real_count = length rows
                   - length (filter (\<lambda>r. is_pattern_data r \<and> \<not> has_override r) rows),
                 pattern_count = length (filter (\<lambda>r. is_pattern_data r \<and> \<not> has_override r) rows)\<rparr>)
      else Inl (ValueError (map (cells fieldnames)
             (takeWhile (\<lambda>r. dom r \<subseteq> set fieldnames) (map spec_row rows)))))"
  by (simp add: main_def update_loop_spec writerows_eq spec_row_pattern comp_def Let_def)

lemma header_covers:
  assumes "set merge_keys \<subseteq> set fieldnames" and "\<forall>r\<in>set rows. dom r \<subseteq> set fieldnames"
  shows "\<forall>r\<in>set rows. dom (spec_row r) \<subseteq> set fieldnames"
  using assms dom_spec_row by blast






lemma lookup_uplift: "map_of REAL_FOUNDER_DATA (lit ''Uplift AI'') = Some uplift_data"
  unfolding REAL_FOUNDER_DATA_def uplift_data_def by simp

lemma lookup_acme: "map_of REAL_FOUNDER_DATA (lit ''Acme Robotics'') = None"
  unfolding REAL_FOUNDER_DATA_def by (simp add: lit_eq_iff)

lemma lookup_initech: "map_of REAL_FOUNDER_DATA (lit ''Initech'') = None"
  unfolding REAL_FOUNDER_DATA_def by (simp add: lit_eq_iff)



lemma ex_names:
  "dict_get row_known (lit ''Company_Name'') [] = lit ''Uplift AI''"
  "dict_get row_unknown (lit ''Company_Name'') [] = lit ''Acme Robotics''"
  "dict_get row_real (lit ''Company_Name'') [] = lit ''Initech''"
  by (simp_all add: row_known_def row_unknown_def row_real_def dict_get_def lit_eq_iff)





section \<open>The batch driver on rows with missing cells\<close>

text \<open>
  On rows whose cells are all strings the two translations of the driver agree, step by
  step.
\<close>

lemma str_cells_upd: "str_cells (m(k \<mapsto> v)) = (str_cells m)(k \<mapsto> Some v)"
  by (rule ext) (simp add: str_cells_def)

lemma merge_str_cells:
  "update_company_with_real_data_csv (str_cells r) rd
     = str_cells (update_company_with_real_data r rd)"
  by (simp add: update_company_with_real_data_csv_def update_company_with_real_data_def
      row_get_str_cells str_cells_upd)

lemma map_add_str_cells: "str_cells r ++ str_cells r' = str_cells (r ++ r')"
  by (rule ext) (simp add: str_cells_def map_add_def split: option.split)

lemma update_loop_csv_str_cells:
  "update_loop_csv (map str_cells rows) n
     = Inr (map str_cells (fst (update_loop rows n)), snd (update_loop rows n))"
  by (induction rows arbitrary: n)
     (simp_all add: row_get_str_cells is_pattern_data_csv_str_cells merge_str_cells
       map_add_str_cells Let_def split: option.split prod.split)

lemma count_pattern_csv_str_cells:
  "count_pattern_csv (map str_cells rows) = Inr (length (filter is_pattern_data rows))"
  by (induction rows) (simp_all add: is_pattern_data_csv_str_cells)

lemma dict_to_list_csv_str_cells:
  "dict_to_list_csv fieldnames (str_cells r) = dict_to_list fieldnames r"
proof -
  have "dom (str_cells r) = dom r"
    by (auto simp add: str_cells_def dom_def)
  then show ?thesis
    by (simp add: dict_to_list_csv_def dict_to_list_def row_get_str_cells)
qed

lemma writerows_csv_str_cells:
  "writerows_csv fieldnames (map str_cells rows) written = writerows fieldnames rows written"
  by (induction rows arbitrary: written)
     (simp_all add: dict_to_list_csv_str_cells split: option.split)

lemma main_csv_str_cells: "main_csv fieldnames (map str_cells rows) = main fieldnames rows"
  by (cases "update_loop rows 0")
     (simp add: main_csv_def main_def update_loop_csv_str_cells count_pattern_csv_str_cells
       writerows_csv_str_cells Let_def split: sum.split)

text \<open>
  When no cell is missing, the header has the ten columns that the merger writes and
  the rows have columns of the header only, the driver writes as many rows as it read,
  in the order of the input: the merge result for a row whose company name is in the
  table and which is classified placeholder, and every other row as it was read.
\<close>

lemma main_csv_full_lines:
  assumes "set merge_keys \<subseteq> set fieldnames" and "\<forall>r\<in>set rows. dom r \<subseteq> set fieldnames"
  shows "map_sum id fst (main_csv fieldnames (map str_cells rows))
           = Inr (map (\<lambda>r. cells fieldnames (spec_row r)) rows)"
  using header_covers [OF assms] by (simp add: main_csv_str_cells main_eq)

lemma short_row_name: "row_get short_row (lit ''Company_Name'') [] = Some (lit ''Acme Robotics'')"
  by (simp add: row_get_def short_row_cells)

lemma update_loop_csv_short_line:
  "update_loop_csv [str_cells row_known, short_row, str_cells row_real] 0
     = Inr ([str_cells (update_company_with_real_data row_known uplift_data), short_row,
             str_cells row_real], 1)"
  by (simp add: row_get_str_cells is_pattern_data_csv_str_cells ex_names lookup_uplift
      lookup_acme lookup_initech row_known_pattern merge_str_cells map_add_str_cells
      map_add_merge short_row_name)

text \<open>
  C7: the claim has the driver put out, for every input, a list of the length of the
  input. The code does not when a line of the file is short. For the file with the
  header \<open>ex_fieldnames\<close>, the full line of \<open>row_known\<close>, the two-cell line \<open>short_line\<close> and
  the full line of \<open>row_real\<close>, the loop updates the first row and passes the others,
  and the count of the placeholder rows then calls \<^verbatim>\<open>is_pattern_data\<close> on the row of the
  short line, which raises \<^verbatim>\<open>AttributeError\<close>: the run ends before the file is opened
  for writing, and nothing is put out.
\<close>

theorem main_short_line:
  "main_csv ex_fieldnames [str_cells row_known, short_row, str_cells row_real]
     = Inl AttributeError"
proof -
  have "\<not> is_pattern_data (update_company_with_real_data row_known uplift_data)"
    using uplift_in_table by (rule table_entry_real)
  then have "count_pattern_csv
       [str_cells (update_company_with_real_data row_known uplift_data), short_row,
        str_cells row_real] = Inl AttributeError"
    by (simp add: is_pattern_data_csv_str_cells short_row_raises)
  then show ?thesis
    unfolding main_csv_def update_loop_csv_short_line by simp
qed

end
